theory Spec2Isabelle
  imports Complex_Main "HOL-Library.Log_Nat"
begin

section \<open>JavaScript values used by map.js\<close>

text \<open>
  A JavaScript Number is modelled as \<open>NaN\<close>, one of the two infinities, or a finite
  value, which is a real number. Two arithmetics on finite values are given. The
  operations \<open>add64\<close>, \<open>sub64\<close>, \<open>mul64\<close> and \<open>div64\<close> are those of JavaScript: each
  result is rounded to the nearest binary64 value. The operations \<open>js_add\<close>, \<open>js_sub\<close>,
  \<open>js_mul\<close> and \<open>js_div\<close> are exact: they leave the rounding out, and are the same as
  the former on \<open>NaN\<close> and the infinities. The sign of zero is not modelled. A string is a
  list of code units; \<^typ>\<open>char\<close> covers the code units below 256.
\<close>

datatype number = NaN | PInf | NInf | Fin real

datatype error = TypeError

fun js_neg :: "number \<Rightarrow> number" where
  "js_neg NaN = NaN"
| "js_neg PInf = NInf"
| "js_neg NInf = PInf"
| "js_neg (Fin a) = Fin (- a)"

fun js_add :: "number \<Rightarrow> number \<Rightarrow> number" where
  "js_add (Fin a) (Fin b) = Fin (a + b)"
| "js_add NaN y = NaN"
| "js_add x NaN = NaN"
| "js_add PInf NInf = NaN"
| "js_add NInf PInf = NaN"
| "js_add PInf y = PInf"
| "js_add NInf y = NInf"
| "js_add (Fin a) PInf = PInf"
| "js_add (Fin a) NInf = NInf"

definition js_sub :: "number \<Rightarrow> number \<Rightarrow> number" where
  "js_sub x y = js_add x (js_neg y)"

text \<open>The sign of an infinite product or quotient: \<open>0\<close> counts as positive zero.\<close>

definition signed_inf :: "bool \<Rightarrow> number" where
  "signed_inf negative = (if negative then NInf else PInf)"

fun js_mul :: "number \<Rightarrow> number \<Rightarrow> number" where
  "js_mul (Fin a) (Fin b) = Fin (a * b)"
| "js_mul NaN y = NaN"
| "js_mul x NaN = NaN"
| "js_mul PInf PInf = PInf"
| "js_mul PInf NInf = NInf"
| "js_mul NInf PInf = NInf"
| "js_mul NInf NInf = PInf"
| "js_mul PInf (Fin b) = (if b = 0 then NaN else signed_inf (b < 0))"
| "js_mul NInf (Fin b) = (if b = 0 then NaN else signed_inf (0 < b))"
| "js_mul (Fin a) PInf = (if a = 0 then NaN else signed_inf (a < 0))"
| "js_mul (Fin a) NInf = (if a = 0 then NaN else signed_inf (0 < a))"

fun js_div :: "number \<Rightarrow> number \<Rightarrow> number" where
  "js_div (Fin a) (Fin b) =
     (if b = 0 then (if a = 0 then NaN else signed_inf (a < 0)) else Fin (a / b))"
| "js_div NaN y = NaN"
| "js_div x NaN = NaN"
| "js_div PInf (Fin b) = signed_inf (b < 0)"
| "js_div NInf (Fin b) = signed_inf (0 \<le> b)"
| "js_div (Fin a) PInf = Fin 0"
| "js_div (Fin a) NInf = Fin 0"
| "js_div PInf y = NaN"
| "js_div NInf y = NaN"

text \<open>The comparisons \<open>x <= y\<close> and \<open>x >= y\<close>: false as soon as one side is \<open>NaN\<close>.\<close>

fun js_le :: "number \<Rightarrow> number \<Rightarrow> bool" where
  "js_le (Fin a) (Fin b) = (a \<le> b)"
| "js_le NaN y = False"
| "js_le x NaN = False"
| "js_le NInf y = True"
| "js_le x PInf = True"
| "js_le PInf y = False"
| "js_le (Fin a) NInf = False"

definition js_ge :: "number \<Rightarrow> number \<Rightarrow> bool" where
  "js_ge x y = js_le y x"

text \<open>\<open>Math.abs\<close> and \<open>Math.round\<close> (the nearest integer, a tie going up).\<close>

fun Math_abs :: "number \<Rightarrow> number" where
  "Math_abs NaN = NaN"
| "Math_abs PInf = PInf"
| "Math_abs NInf = PInf"
| "Math_abs (Fin a) = Fin \<bar>a\<bar>"

fun Math_round :: "number \<Rightarrow> number" where
  "Math_round (Fin a) = Fin (of_int \<lfloor>a + 1 / 2\<rfloor>)"
| "Math_round x = x"

subsection \<open>Binary64 arithmetic\<close>

text \<open>The nearest integer, a tie going to the even one.\<close>

definition round_even :: "real \<Rightarrow> int" where
  "round_even x =
     (let f = \<lfloor>x\<rfloor>; r = x - of_int f
      in if r < 1 / 2 then f else if 1 / 2 < r then f + 1 else if even f then f else f + 1)"

text \<open>The binary exponent of a positive real: the \<open>e\<close> with \<open>2^e \<le> x < 2^(e + 1)\<close>.\<close>

definition ilog2 :: "real \<Rightarrow> int" where
  "ilog2 x =
     (if 1 \<le> x then int (floorlog 2 (nat \<lfloor>x\<rfloor>)) - 1
      else - int (floorlog 2 (nat (\<lceil>1 / x\<rceil> - 1))))"

text \<open>
  Rounding to binary64 with an unbounded exponent above: 53 significant bits, and the
  multiples of \<open>2^-1074\<close> below \<open>2^-1022\<close> (the subnormal values); ties go to the even
  significand.
\<close>

definition b64 :: "real \<Rightarrow> real" where
  "b64 x =
     (if x = 0 then 0
      else let q = max (ilog2 \<bar>x\<bar> - 52) (- 1074)
           in of_int (round_even (x / 2 powi q)) * 2 powi q)"

text \<open>The Number for an exact result: rounded, and infinite from \<open>2^1024\<close> on.\<close>

definition fl :: "real \<Rightarrow> number" where
  "fl x =
     (let y = b64 x
      in if 2 ^ 1024 \<le> y then PInf else if y \<le> - (2 ^ 1024) then NInf else Fin y)"

fun add64 :: "number \<Rightarrow> number \<Rightarrow> number" where
  "add64 (Fin a) (Fin b) = fl (a + b)"
| "add64 x y = js_add x y"

definition sub64 :: "number \<Rightarrow> number \<Rightarrow> number" where
  "sub64 x y = add64 x (js_neg y)"

fun mul64 :: "number \<Rightarrow> number \<Rightarrow> number" where
  "mul64 (Fin a) (Fin b) = fl (a * b)"
| "mul64 x y = js_mul x y"

fun div64 :: "number \<Rightarrow> number \<Rightarrow> number" where
  "div64 (Fin a) (Fin b) = (if b = 0 then js_div (Fin a) (Fin b) else fl (a / b))"
| "div64 x y = js_div x y"

text \<open>A decimal literal of the source text denotes the binary64 value nearest to it.\<close>

definition lit :: "real \<Rightarrow> number" where
  "lit x = fl x"

subsection \<open>Strings\<close>

text \<open>\<open>s.substring(a, b)\<close> and \<open>s.slice(a, b)\<close> for indices \<open>0 \<le> a \<le> b\<close>.\<close>

definition substring :: "nat \<Rightarrow> nat \<Rightarrow> string \<Rightarrow> string" where
  "substring a b s = drop a (take b s)"

definition slice :: "nat \<Rightarrow> nat \<Rightarrow> string \<Rightarrow> string" where
  "slice a b s = drop a (take b s)"

text \<open>\<open>s.replace(/\./g, '')\<close>: every full stop is removed.\<close>

definition strip_dots :: "string \<Rightarrow> string" where
  "strip_dots s = filter (\<lambda>c. c \<noteq> CHR ''.'') s"

text \<open>White space and line terminators among the code units below 256.\<close>

definition is_space :: "char \<Rightarrow> bool" where
  "is_space c = (of_char c \<in> {9, 10, 11, 12, 13, 32, 160 :: nat})"

definition trim_start :: "string \<Rightarrow> string" where
  "trim_start s = dropWhile is_space s"

definition trim :: "string \<Rightarrow> string" where
  "trim s = rev (dropWhile is_space (rev (dropWhile is_space s)))"

text \<open>The value of a digit in a radix up to 36; letters of either case count from 10.\<close>

definition digit_val :: "char \<Rightarrow> nat option" where
  "digit_val c =
     (let n = of_char c :: nat in
      if 48 \<le> n \<and> n \<le> 57 then Some (n - 48)
      else if 97 \<le> n \<and> n \<le> 122 then Some (n - 87)
      else if 65 \<le> n \<and> n \<le> 90 then Some (n - 55)
      else None)"

definition is_digit :: "nat \<Rightarrow> char \<Rightarrow> bool" where
  "is_digit radix c = (case digit_val c of None \<Rightarrow> False | Some d \<Rightarrow> d < radix)"

definition digits_value :: "nat \<Rightarrow> string \<Rightarrow> nat" where
  "digits_value radix ds = foldl (\<lambda>acc c. acc * radix + the (digit_val c)) 0 ds"

text \<open>An optional sign in front of a string: whether it is a minus, and what follows.\<close>

fun split_sign :: "string \<Rightarrow> bool \<times> string" where
  "split_sign (c # cs) =
     (if c = CHR ''-'' then (True, cs) else if c = CHR ''+'' then (False, cs)
      else (False, c # cs))"
| "split_sign [] = (False, [])"

definition with_sign :: "bool \<Rightarrow> real \<Rightarrow> real" where
  "with_sign negative v = (if negative then - v else v)"

text \<open>
  \<open>parseInt(s, radix)\<close>: leading white space and a sign are skipped, a radix of 0 means 10,
  \<open>0x\<close> is skipped for radix 16 (and selects it for radix 0), and the longest run of digits
  of the radix is read; \<open>NaN\<close> when that run is empty or the radix is outside 2..36.
\<close>

definition has_hex_prefix :: "string \<Rightarrow> bool" where
  "has_hex_prefix s = (take 2 s = ''0x'' \<or> take 2 s = ''0X'')"

definition parseInt :: "string \<Rightarrow> nat \<Rightarrow> number" where
  "parseInt s radix =
     (let (negative, body) = split_sign (trim_start s) in
      if radix \<noteq> 0 \<and> (radix < 2 \<or> 36 < radix) then NaN
      else
        let strip = (radix = 0 \<or> radix = 16) \<and> has_hex_prefix body;
            R = (if strip then 16 else if radix = 0 then 10 else radix);
            Z = takeWhile (is_digit R) (if strip then drop 2 body else body)
        in if Z = [] then NaN else Fin (with_sign negative (real (digits_value R Z))))"

text \<open>
  The numeric literals of strings. \<open>str_decimal\<close> reads the longest prefix that is a signed
  decimal literal (digits with an optional fraction and exponent, or \<open>Infinity\<close>) and returns
  its value with the rest of the string.
\<close>

definition exponent_part :: "string \<Rightarrow> (int \<times> string) option" where
  "exponent_part s =
     (case s of
        [] \<Rightarrow> None
      | c # cs \<Rightarrow>
          if c = CHR ''e'' \<or> c = CHR ''E'' then
            (let (negative, body) = split_sign cs;
                 ds = takeWhile (is_digit 10) body
             in if ds = [] then None
                else Some ((if negative then - int (digits_value 10 ds)
                            else int (digits_value 10 ds)),
                           dropWhile (is_digit 10) body))
          else None)"

definition str_unsigned_decimal :: "string \<Rightarrow> (real \<times> string) option" where
  "str_unsigned_decimal s =
     (let ip = takeWhile (is_digit 10) s;
          r1 = dropWhile (is_digit 10) s;
          fp = (case r1 of
                  c # cs \<Rightarrow> if c = CHR ''.'' then takeWhile (is_digit 10) cs else []
                | [] \<Rightarrow> []);
          r2 = (case r1 of
                  c # cs \<Rightarrow> if c = CHR ''.'' then dropWhile (is_digit 10) cs else r1
                | [] \<Rightarrow> r1)
      in if ip = [] \<and> fp = [] then None
         else
           let m = real (digits_value 10 ip) + real (digits_value 10 fp) / 10 ^ length fp
           in (case exponent_part r2 of
                 None \<Rightarrow> Some (m, r2)
               | Some (e, r3) \<Rightarrow> Some (m * 10 powi e, r3)))"

definition str_decimal :: "string \<Rightarrow> (number \<times> string) option" where
  "str_decimal s =
     (let (negative, body) = split_sign s in
      if take 8 body = ''Infinity'' then Some (signed_inf negative, drop 8 body)
      else (case str_unsigned_decimal body of
              None \<Rightarrow> None
            | Some (v, rest) \<Rightarrow> Some (Fin (with_sign negative v), rest)))"

text \<open>\<open>parseFloat(s)\<close>: the literal at the start of \<open>s\<close>, whatever follows it.\<close>

definition parseFloat :: "string \<Rightarrow> number" where
  "parseFloat s = (case str_decimal (trim_start s) of None \<Rightarrow> NaN | Some (v, rest) \<Rightarrow> v)"

text \<open>
  Unary plus on a string: the whole trimmed string must be one literal, decimal or an
  unsigned \<open>0x\<close>, \<open>0o\<close> or \<open>0b\<close> integer; the empty string is 0.
\<close>

definition radix_literal :: "string \<Rightarrow> number option" where
  "radix_literal s =
     (let p = take 2 s; ds = drop 2 s;
          R = (if p = ''0x'' \<or> p = ''0X'' then 16
               else if p = ''0o'' \<or> p = ''0O'' then 8
               else if p = ''0b'' \<or> p = ''0B'' then 2 else (0::nat))
      in if R \<noteq> 0 \<and> ds \<noteq> [] \<and> list_all (is_digit R) ds
         then Some (Fin (real (digits_value R ds))) else None)"

definition to_number :: "string \<Rightarrow> number" where
  "to_number s =
     (let t = trim s in
      if t = [] then Fin 0
      else (case radix_literal t of
              Some v \<Rightarrow> v
            | None \<Rightarrow>
                (case str_decimal t of
                   Some (v, []) \<Rightarrow> v
                 | _ \<Rightarrow> NaN)))"

text \<open>The decimal digits of a natural number and of an integer.\<close>

fun nat_digits :: "nat \<Rightarrow> string" where
  "nat_digits n =
     (if n < 10 then [char_of (48 + n)]
      else nat_digits (n div 10) @ [char_of (48 + n mod 10)])"

definition int_string :: "int \<Rightarrow> string" where
  "int_string i = (if i < 0 then CHR ''-'' # nat_digits (nat (- i)) else nat_digits (nat i))"

text \<open>
  The conversion of a Number to a string, as in a template literal. For a positive \<open>x\<close> it
  takes the digits \<open>s\<close> and the exponent \<open>p\<close> of the shortest decimal \<open>s * 10^p\<close> that
  rounds to \<open>x\<close> (the nearest to \<open>x\<close> among the shortest; no more than 17 digits), and
  writes them without an exponent when \<open>x\<close> is from \<open>10^-6\<close> up to \<open>10^21\<close>. An integer below
  \<open>2^53\<close> is its own shortest decimal, and is printed digit by digit.
\<close>

text \<open>The decimal exponent of a positive real: the \<open>n\<close> with \<open>10^(n - 1) \<le> x < 10^n\<close>.\<close>

definition dec_exp :: "real \<Rightarrow> int" where
  "dec_exp x =
     (if 1 \<le> x then int (floorlog 10 (nat \<lfloor>x\<rfloor>))
      else 1 - int (floorlog 10 (nat (\<lceil>1 / x\<rceil> - 1))))"

text \<open>The two decimals \<open>s * 10^p\<close> around \<open>x\<close>, the nearer one first (the even one on a tie).\<close>

definition candidates :: "real \<Rightarrow> int \<Rightarrow> (int \<times> int) list" where
  "candidates x p =
     (let lo = \<lfloor>x / 10 powi p\<rfloor>;
          below = x - of_int lo * 10 powi p;
          above = of_int (lo + 1) * 10 powi p - x
      in if below < above \<or> (below = above \<and> even lo) then [(lo, p), (lo + 1, p)]
         else [(lo + 1, p), (lo, p)])"

definition shortest_decimal :: "real \<Rightarrow> int \<times> int" where
  "shortest_decimal x =
     (let n = dec_exp x;
          cs = concat (map (\<lambda>k. candidates x (n - int k)) [1 ..< 18])
      in case filter (\<lambda>(s, p). b64 (of_int s * 10 powi p) = x) cs of
           c # rest \<Rightarrow> c
         | [] \<Rightarrow> (\<lfloor>x / 10 powi (n - 17)\<rfloor>, n - 17))"

definition strip_zeros :: "string \<Rightarrow> string" where
  "strip_zeros ds = rev (dropWhile (\<lambda>c. c = CHR ''0'') (rev ds))"

text \<open>The digits \<open>ds\<close> of a decimal below \<open>10^n\<close> and at least \<open>10^(n - 1)\<close>, written out.\<close>

definition format_decimal :: "string \<Rightarrow> int \<Rightarrow> string" where
  "format_decimal ds n =
     (let k = int (length ds) in
      if k \<le> n \<and> n \<le> 21 then ds @ replicate (nat (n - k)) CHR ''0''
      else if 0 < n \<and> n \<le> 21 then take (nat n) ds @ ''.'' @ drop (nat n) ds
      else if - 6 < n \<and> n \<le> 0 then ''0.'' @ replicate (nat (- n)) CHR ''0'' @ ds
      else (if k = 1 then ds else take 1 ds @ ''.'' @ drop 1 ds)
           @ ''e'' @ (if 0 \<le> n - 1 then ''+'' else ''-'') @ nat_digits (nat \<bar>n - 1\<bar>))"

definition positive_string :: "real \<Rightarrow> string" where
  "positive_string x =
     (if of_int \<lfloor>x\<rfloor> = x \<and> x < 2 ^ 53 then nat_digits (nat \<lfloor>x\<rfloor>)
      else let (s, p) = shortest_decimal x;
               ds = nat_digits (nat s)
           in format_decimal (strip_zeros ds) (p + int (length ds)))"

fun number_string :: "number \<Rightarrow> string" where
  "number_string NaN = ''NaN''"
| "number_string PInf = ''Infinity''"
| "number_string NInf = ''-Infinity''"
| "number_string (Fin a) =
     (if a < 0 then CHR ''-'' # positive_string (- a) else positive_string a)"

section \<open>The colour scale\<close>

text \<open>
  The palette and \<open>createColorScale\<close>, first with exact arithmetic: the positions are the
  decimal fractions as written and no operation rounds.
\<close>

record stop =
  pos :: number
  color :: string

record rgb =
  rgb_r :: number
  rgb_g :: number
  rgb_b :: number

definition colors :: "stop list" where
  "colors =
     [\<lparr>pos = Fin 0.0, color = ''#4fc3f7''\<rparr>,
      \<lparr>pos = Fin 0.2, color = ''#42a5f5''\<rparr>,
      \<lparr>pos = Fin 0.4, color = ''#7e57c2''\<rparr>,
      \<lparr>pos = Fin 0.6, color = ''#ac26c4ff''\<rparr>,
      \<lparr>pos = Fin 0.8, color = ''#ec407a''\<rparr>,
      \<lparr>pos = Fin 1.0, color = ''#ef5350''\<rparr>]"

text \<open>\<open>localT = (t - lowerColor.pos) / (upperColor.pos - lowerColor.pos)\<close>.\<close>

definition local_t :: "number \<Rightarrow> stop \<Rightarrow> stop \<Rightarrow> number" where
  "local_t t lowerColor upperColor =
     js_div (js_sub t (pos lowerColor)) (js_sub (pos upperColor) (pos lowerColor))"

text \<open>
  The loop over \<open>i = 0 .. colors.length - 2\<close>: the first adjacent pair of stops with
  \<open>t >= colors[i].pos && t <= colors[i + 1].pos\<close>, with \<open>localT\<close> computed for it; \<open>None\<close>
  when the loop ends without a match and the three variables stay undefined.
\<close>

fun find_segment :: "number \<Rightarrow> stop list \<Rightarrow> (stop \<times> stop \<times> number) option" where
  "find_segment t (lowerColor # upperColor # rest) =
     (if js_ge t (pos lowerColor) \<and> js_le t (pos upperColor)
      then Some (lowerColor, upperColor, local_t t lowerColor upperColor)
      else find_segment t (upperColor # rest))"
| "find_segment t [lowerColor] = None"
| "find_segment t [] = None"

definition parseHex :: "string \<Rightarrow> rgb" where
  "parseHex hex =
     \<lparr>rgb_r = parseInt (slice 1 3 hex) 16,
      rgb_g = parseInt (slice 3 5 hex) 16,
      rgb_b = parseInt (slice 5 7 hex) 16\<rparr>"

text \<open>The smoothstep function \<open>localT * localT * (3 - 2 * localT)\<close>.\<close>

definition smoothstep :: "number \<Rightarrow> number" where
  "smoothstep localT =
     js_mul (js_mul localT localT) (js_sub (Fin 3) (js_mul (Fin 2) localT))"

text \<open>One channel: \<open>Math.round(lower + (upper - lower) * eased)\<close>.\<close>

definition channel :: "number \<Rightarrow> number \<Rightarrow> number \<Rightarrow> number" where
  "channel lower upper eased = Math_round (js_add lower (js_mul (js_sub upper lower) eased))"

text \<open>The three channels computed from the two stops found and \<open>localT\<close>.\<close>

definition interpolate :: "stop \<Rightarrow> stop \<Rightarrow> number \<Rightarrow> rgb" where
  "interpolate lowerColor upperColor localT =
     (let lower = parseHex (color lowerColor);
          upper = parseHex (color upperColor);
          eased = smoothstep localT
      in \<lparr>rgb_r = channel (rgb_r lower) (rgb_r upper) eased,
          rgb_g = channel (rgb_g lower) (rgb_g upper) eased,
          rgb_b = channel (rgb_b lower) (rgb_b upper) eased\<rparr>)"

text \<open>
  Reading \<open>lowerColor.color\<close> while \<open>lowerColor\<close> is undefined throws a \<open>TypeError\<close>.
\<close>

definition color_channels :: "number \<Rightarrow> error + rgb" where
  "color_channels t =
     (case find_segment t colors of
        None \<Rightarrow> Inl TypeError
      | Some (lowerColor, upperColor, localT) \<Rightarrow> Inr (interpolate lowerColor upperColor localT))"

text \<open>The template literal \<open>`rgb(${r}, ${g}, ${b})`\<close>.\<close>

definition rgb_string :: "rgb \<Rightarrow> string" where
  "rgb_string c =
     ''rgb('' @ number_string (rgb_r c) @ '', '' @ number_string (rgb_g c) @ '', ''
       @ number_string (rgb_b c) @ '')''"

definition createColorScale :: "number \<Rightarrow> error + string" where
  "createColorScale t =
     (case color_channels t of Inl e \<Rightarrow> Inl e | Inr c \<Rightarrow> Inr (rgb_string c))"

section \<open>The colour scale in binary64 arithmetic\<close>

text \<open>
  \<open>createColorScale\<close> once more, with the arithmetic that JavaScript performs: the positions
  of the palette are the binary64 values of the literals, and every subtraction, division,
  multiplication and addition rounds its result. The comparisons, \<open>parseHex\<close>,
  \<open>Math.round\<close> and the template literal are exact on binary64 values and are shared
  with the definitions above.
\<close>

definition colors64 :: "stop list" where
  "colors64 =
     [\<lparr>pos = lit 0.0, color = ''#4fc3f7''\<rparr>,
      \<lparr>pos = lit 0.2, color = ''#42a5f5''\<rparr>,
      \<lparr>pos = lit 0.4, color = ''#7e57c2''\<rparr>,
      \<lparr>pos = lit 0.6, color = ''#ac26c4ff''\<rparr>,
      \<lparr>pos = lit 0.8, color = ''#ec407a''\<rparr>,
      \<lparr>pos = lit 1.0, color = ''#ef5350''\<rparr>]"

definition local_t64 :: "number \<Rightarrow> stop \<Rightarrow> stop \<Rightarrow> number" where
  "local_t64 t lowerColor upperColor =
     div64 (sub64 t (pos lowerColor)) (sub64 (pos upperColor) (pos lowerColor))"

fun find_segment64 :: "number \<Rightarrow> stop list \<Rightarrow> (stop \<times> stop \<times> number) option" where
  "find_segment64 t (lowerColor # upperColor # rest) =
     (if js_ge t (pos lowerColor) \<and> js_le t (pos upperColor)
      then Some (lowerColor, upperColor, local_t64 t lowerColor upperColor)
      else find_segment64 t (upperColor # rest))"
| "find_segment64 t [lowerColor] = None"
| "find_segment64 t [] = None"

definition smoothstep64 :: "number \<Rightarrow> number" where
  "smoothstep64 localT =
     mul64 (mul64 localT localT) (sub64 (Fin 3) (mul64 (Fin 2) localT))"

definition channel64 :: "number \<Rightarrow> number \<Rightarrow> number \<Rightarrow> number" where
  "channel64 lower upper eased = Math_round (add64 lower (mul64 (sub64 upper lower) eased))"

definition interpolate64 :: "stop \<Rightarrow> stop \<Rightarrow> number \<Rightarrow> rgb" where
  "interpolate64 lowerColor upperColor localT =
     (let lower = parseHex (color lowerColor);
          upper = parseHex (color upperColor);
          eased = smoothstep64 localT
      in \<lparr>rgb_r = channel64 (rgb_r lower) (rgb_r upper) eased,
          rgb_g = channel64 (rgb_g lower) (rgb_g upper) eased,
          rgb_b = channel64 (rgb_b lower) (rgb_b upper) eased\<rparr>)"

definition color_channels64 :: "number \<Rightarrow> error + rgb" where
  "color_channels64 t =
     (case find_segment64 t colors64 of
        None \<Rightarrow> Inl TypeError
      | Some (lowerColor, upperColor, localT) \<Rightarrow>
          Inr (interpolate64 lowerColor upperColor localT))"

definition createColorScale64 :: "number \<Rightarrow> error + string" where
  "createColorScale64 t =
     (case color_channels64 t of Inl e \<Rightarrow> Inl e | Inr c \<Rightarrow> Inr (rgb_string c))"

section \<open>Loading the airports\<close>

text \<open>A row of the parsed CSV file: every field is a string.\<close>

record csv_row =
  row_codigo :: string
  row_lat :: string
  row_lon :: string
  row_ops_2019 :: string
  row_ops_2020 :: string
  row_var_pct_20_vs_19 :: string

record airport =
  codigo :: string
  lat :: number
  lon :: number
  ops_2019 :: number
  ops_2020 :: number
  reduction_pct :: number

text \<open>
  The repair of one coordinate: the full stops are removed, and the first three characters,
  a full stop and the next three characters are parsed.
\<close>

definition coordinate_string :: "string \<Rightarrow> string" where
  "coordinate_string raw =
     (let latStr = strip_dots raw
      in substring 0 3 latStr @ ''.'' @ substring 3 6 latStr)"

definition normalize_coordinate :: "string \<Rightarrow> number" where
  "normalize_coordinate raw = parseFloat (coordinate_string raw)"

definition load_row :: "csv_row \<Rightarrow> airport" where
  "load_row d =
     \<lparr>codigo = row_codigo d,
      lat = normalize_coordinate (row_lat d),
      lon = normalize_coordinate (row_lon d),
      ops_2019 = to_number (row_ops_2019 d),
      ops_2020 = to_number (row_ops_2020 d),
      reduction_pct = Math_abs (to_number (row_var_pct_20_vs_19 d))\<rparr>"

definition loadAirportData :: "csv_row list \<Rightarrow> airport list" where
  "loadAirportData csvData = map load_row csvData"

section \<open>The legend gradient\<close>

text \<open>\<open>d3.range(start, stop, step)\<close> on integers with a positive step.\<close>

definition d3_range :: "int \<Rightarrow> int \<Rightarrow> int \<Rightarrow> int list" where
  "d3_range start stop step =
     map (\<lambda>i. start + int i * step) [0 ..< nat \<lceil>real_of_int (stop - start) / real_of_int step\<rceil>]"

record gradient_stop =
  offset :: string
  stop_color :: "error + string"

text \<open>The stops appended to the gradient by \<open>createLegend\<close>, in order.\<close>

definition legend_stops :: "gradient_stop list" where
  "legend_stops =
     map (\<lambda>stop. \<lparr>offset = int_string stop @ ''%'',
                   stop_color = createColorScale (js_div (Fin (of_int stop)) (Fin 100))\<rparr>)
         (d3_range 0 101 2)"

section \<open>Auxiliary definitions\<close>

text \<open>The smoothstep polynomial on the reals, for finite arguments of \<open>smoothstep\<close>.\<close>

definition ease :: "real \<Rightarrow> real" where
  "ease x = x * x * (3 - 2 * x)"

text \<open>
  The repair of a coordinate as the specification words it: the full stops are removed, one
  full stop is put in after the first three characters, and the result is parsed. Nothing
  of the string is dropped.
\<close>

definition spec_normalize :: "string \<Rightarrow> number" where
  "spec_normalize raw = (let s = strip_dots raw in parseFloat (take 3 s @ ''.'' @ drop 3 s))"

text \<open>
  Whether a string starts with a number for \<open>parseFloat\<close>: after leading white space and
  an optional sign comes a digit, or a full stop and then a digit.
\<close>

definition numeric_start :: "string \<Rightarrow> bool" where
  "numeric_start s =
     (case snd (split_sign (trim_start s)) of
        [] \<Rightarrow> False
      | c # cs \<Rightarrow>
          is_digit 10 c
          \<or> (c = CHR ''.'' \<and> (case cs of [] \<Rightarrow> False | d # ds \<Rightarrow> is_digit 10 d)))"

text \<open>
  An approximate bounding box of Chile, in degrees: latitudes from -56 to -17, longitudes
  from -76 to -66. The program has no such box; these bounds are chosen here.
\<close>

definition in_chile_box :: "number \<Rightarrow> number \<Rightarrow> bool" where
  "in_chile_box latitude longitude =
     (js_ge latitude (Fin (- 56)) \<and> js_le latitude (Fin (- 17))
      \<and> js_ge longitude (Fin (- 76)) \<and> js_le longitude (Fin (- 66)))"

section \<open>Basic facts about the colour scale\<close>

declare nat_digits.simps [simp del]

lemma smoothstep_Fin: "smoothstep (Fin x) = Fin (ease x)"
  by (simp add: smoothstep_def ease_def js_sub_def)

lemma channel_Fin: "channel (Fin l) (Fin u) (Fin e) = Fin (of_int (round (l + (u - l) * e)))"
  by (simp add: channel_def js_sub_def round_def)

lemma parseHex_palette:
  "parseHex ''#4fc3f7'' = \<lparr>rgb_r = Fin 79, rgb_g = Fin 195, rgb_b = Fin 247\<rparr>"
  "parseHex ''#42a5f5'' = \<lparr>rgb_r = Fin 66, rgb_g = Fin 165, rgb_b = Fin 245\<rparr>"
  "parseHex ''#7e57c2'' = \<lparr>rgb_r = Fin 126, rgb_g = Fin 87, rgb_b = Fin 194\<rparr>"
  "parseHex ''#ac26c4ff'' = \<lparr>rgb_r = Fin 172, rgb_g = Fin 38, rgb_b = Fin 196\<rparr>"
  "parseHex ''#ec407a'' = \<lparr>rgb_r = Fin 236, rgb_g = Fin 64, rgb_b = Fin 122\<rparr>"
  "parseHex ''#ef5350'' = \<lparr>rgb_r = Fin 239, rgb_g = Fin 83, rgb_b = Fin 80\<rparr>"
  by code_simp+

lemma find_segment_colors:
  "find_segment (Fin x) colors =
     (if 0 \<le> x \<and> x \<le> 1/5
      then Some (\<lparr>pos = Fin 0, color = ''#4fc3f7''\<rparr>, \<lparr>pos = Fin (1/5), color = ''#42a5f5''\<rparr>, Fin (x / (1/5)))
      else if 1/5 \<le> x \<and> x \<le> 2/5
      then Some (\<lparr>pos = Fin (1/5), color = ''#42a5f5''\<rparr>, \<lparr>pos = Fin (2/5), color = ''#7e57c2''\<rparr>, Fin ((x - 1/5) / (1/5)))
      else if 2/5 \<le> x \<and> x \<le> 3/5
      then Some (\<lparr>pos = Fin (2/5), color = ''#7e57c2''\<rparr>, \<lparr>pos = Fin (3/5), color = ''#ac26c4ff''\<rparr>, Fin ((x - 2/5) / (1/5)))
      else if 3/5 \<le> x \<and> x \<le> 4/5
      then Some (\<lparr>pos = Fin (3/5), color = ''#ac26c4ff''\<rparr>, \<lparr>pos = Fin (4/5), color = ''#ec407a''\<rparr>, Fin ((x - 3/5) / (1/5)))
      else if 4/5 \<le> x \<and> x \<le> 1
      then Some (\<lparr>pos = Fin (4/5), color = ''#ec407a''\<rparr>, \<lparr>pos = Fin 1, color = ''#ef5350''\<rparr>, Fin ((x - 4/5) / (1/5)))
      else None)"
  by (simp add: colors_def js_ge_def js_sub_def local_t_def)

lemma ease_0: "ease 0 = 0" and ease_1: "ease 1 = 1"
  by (simp_all add: ease_def)

lemma channels_at_stops:
  "color_channels (Fin 0) = Inr (parseHex ''#4fc3f7'')"
  "color_channels (Fin (1/5)) = Inr (parseHex ''#42a5f5'')"
  "color_channels (Fin (2/5)) = Inr (parseHex ''#7e57c2'')"
  "color_channels (Fin (3/5)) = Inr (parseHex ''#ac26c4ff'')"
  "color_channels (Fin (4/5)) = Inr (parseHex ''#ec407a'')"
  "color_channels (Fin 1) = Inr (parseHex ''#ef5350'')"
  by (simp_all add: color_channels_def find_segment_colors interpolate_def
        parseHex_palette smoothstep_Fin channel_Fin ease_0 ease_1)

lemma rgb_strings:
  "rgb_string \<lparr>rgb_r = Fin 79, rgb_g = Fin 195, rgb_b = Fin 247\<rparr> = ''rgb(79, 195, 247)''"
  "rgb_string \<lparr>rgb_r = Fin 172, rgb_g = Fin 38, rgb_b = Fin 196\<rparr> = ''rgb(172, 38, 196)''"
  "rgb_string \<lparr>rgb_r = Fin 239, rgb_g = Fin 83, rgb_b = Fin 80\<rparr> = ''rgb(239, 83, 80)''"
  by code_simp+

lemma interpolate_Fin:
  assumes "parseHex (color lo) = \<lparr>rgb_r = Fin lr, rgb_g = Fin lg, rgb_b = Fin lb\<rparr>"
      and "parseHex (color hi) = \<lparr>rgb_r = Fin ur, rgb_g = Fin ug, rgb_b = Fin ub\<rparr>"
  shows "interpolate lo hi (Fin x) =
           \<lparr>rgb_r = Fin (of_int (round (lr + (ur - lr) * ease x))),
            rgb_g = Fin (of_int (round (lg + (ug - lg) * ease x))),
            rgb_b = Fin (of_int (round (lb + (ub - lb) * ease x)))\<rparr>"
  using assms by (simp add: interpolate_def smoothstep_Fin channel_Fin)

lemma interpolate_ends:
  "interpolate \<lparr>pos = Fin 0, color = ''#4fc3f7''\<rparr> \<lparr>pos = Fin (1/5), color = ''#42a5f5''\<rparr> (Fin 1) = parseHex ''#42a5f5''"
  "interpolate \<lparr>pos = Fin (1/5), color = ''#42a5f5''\<rparr> \<lparr>pos = Fin (2/5), color = ''#7e57c2''\<rparr> (Fin 0) = parseHex ''#42a5f5''"
  "interpolate \<lparr>pos = Fin (1/5), color = ''#42a5f5''\<rparr> \<lparr>pos = Fin (2/5), color = ''#7e57c2''\<rparr> (Fin 1) = parseHex ''#7e57c2''"
  "interpolate \<lparr>pos = Fin (2/5), color = ''#7e57c2''\<rparr> \<lparr>pos = Fin (3/5), color = ''#ac26c4ff''\<rparr> (Fin 0) = parseHex ''#7e57c2''"
  "interpolate \<lparr>pos = Fin (2/5), color = ''#7e57c2''\<rparr> \<lparr>pos = Fin (3/5), color = ''#ac26c4ff''\<rparr> (Fin 1) = parseHex ''#ac26c4ff''"
  "interpolate \<lparr>pos = Fin (3/5), color = ''#ac26c4ff''\<rparr> \<lparr>pos = Fin (4/5), color = ''#ec407a''\<rparr> (Fin 0) = parseHex ''#ac26c4ff''"
  "interpolate \<lparr>pos = Fin (3/5), color = ''#ac26c4ff''\<rparr> \<lparr>pos = Fin (4/5), color = ''#ec407a''\<rparr> (Fin 1) = parseHex ''#ec407a''"
  "interpolate \<lparr>pos = Fin (4/5), color = ''#ec407a''\<rparr> \<lparr>pos = Fin 1, color = ''#ef5350''\<rparr> (Fin 0) = parseHex ''#ec407a''"
  by (simp_all add: interpolate_def parseHex_palette smoothstep_Fin channel_Fin ease_0 ease_1)

lemma channels_segment:
  "0 \<le> t \<Longrightarrow> t \<le> 1/5 \<Longrightarrow> color_channels (Fin t) =
     Inr (interpolate \<lparr>pos = Fin 0, color = ''#4fc3f7''\<rparr> \<lparr>pos = Fin (1/5), color = ''#42a5f5''\<rparr> (Fin (t / (1/5))))"
  "1/5 \<le> t \<Longrightarrow> t \<le> 2/5 \<Longrightarrow> color_channels (Fin t) =
     Inr (interpolate \<lparr>pos = Fin (1/5), color = ''#42a5f5''\<rparr> \<lparr>pos = Fin (2/5), color = ''#7e57c2''\<rparr> (Fin ((t - 1/5) / (1/5))))"
  "2/5 \<le> t \<Longrightarrow> t \<le> 3/5 \<Longrightarrow> color_channels (Fin t) =
     Inr (interpolate \<lparr>pos = Fin (2/5), color = ''#7e57c2''\<rparr> \<lparr>pos = Fin (3/5), color = ''#ac26c4ff''\<rparr> (Fin ((t - 2/5) / (1/5))))"
  "3/5 \<le> t \<Longrightarrow> t \<le> 4/5 \<Longrightarrow> color_channels (Fin t) =
     Inr (interpolate \<lparr>pos = Fin (3/5), color = ''#ac26c4ff''\<rparr> \<lparr>pos = Fin (4/5), color = ''#ec407a''\<rparr> (Fin ((t - 3/5) / (1/5))))"
  "4/5 \<le> t \<Longrightarrow> t \<le> 1 \<Longrightarrow> color_channels (Fin t) =
     Inr (interpolate \<lparr>pos = Fin (4/5), color = ''#ec407a''\<rparr> \<lparr>pos = Fin 1, color = ''#ef5350''\<rparr> (Fin ((t - 4/5) / (1/5))))"
proof -
  show "0 \<le> t \<Longrightarrow> t \<le> 1/5 \<Longrightarrow> color_channels (Fin t) =
     Inr (interpolate \<lparr>pos = Fin 0, color = ''#4fc3f7''\<rparr> \<lparr>pos = Fin (1/5), color = ''#42a5f5''\<rparr> (Fin (t / (1/5))))"
    by (simp add: color_channels_def find_segment_colors)
  show "1/5 \<le> t \<Longrightarrow> t \<le> 2/5 \<Longrightarrow> color_channels (Fin t) =
     Inr (interpolate \<lparr>pos = Fin (1/5), color = ''#42a5f5''\<rparr> \<lparr>pos = Fin (2/5), color = ''#7e57c2''\<rparr> (Fin ((t - 1/5) / (1/5))))"
    by (cases "t = 1/5") (simp_all add: color_channels_def find_segment_colors interpolate_ends)
  show "2/5 \<le> t \<Longrightarrow> t \<le> 3/5 \<Longrightarrow> color_channels (Fin t) =
     Inr (interpolate \<lparr>pos = Fin (2/5), color = ''#7e57c2''\<rparr> \<lparr>pos = Fin (3/5), color = ''#ac26c4ff''\<rparr> (Fin ((t - 2/5) / (1/5))))"
    by (cases "t = 2/5") (simp_all add: color_channels_def find_segment_colors interpolate_ends)
  show "3/5 \<le> t \<Longrightarrow> t \<le> 4/5 \<Longrightarrow> color_channels (Fin t) =
     Inr (interpolate \<lparr>pos = Fin (3/5), color = ''#ac26c4ff''\<rparr> \<lparr>pos = Fin (4/5), color = ''#ec407a''\<rparr> (Fin ((t - 3/5) / (1/5))))"
    by (cases "t = 3/5") (simp_all add: color_channels_def find_segment_colors interpolate_ends)
  show "4/5 \<le> t \<Longrightarrow> t \<le> 1 \<Longrightarrow> color_channels (Fin t) =
     Inr (interpolate \<lparr>pos = Fin (4/5), color = ''#ec407a''\<rparr> \<lparr>pos = Fin 1, color = ''#ef5350''\<rparr> (Fin ((t - 4/5) / (1/5))))"
    by (cases "t = 4/5") (simp_all add: color_channels_def find_segment_colors interpolate_ends)
qed

lemma colors_cases:
  assumes "i < length colors - 1"
  obtains "i = 0" | "i = 1" | "i = 2" | "i = 3" | "i = 4"
  using assms by (simp add: colors_def) arith

lemma channels_in_segment:
  assumes i: "i < length colors - 1"
      and a: "pos (colors ! i) = Fin a" and b: "pos (colors ! Suc i) = Fin b"
      and t: "a \<le> t" "t \<le> b"
  shows "color_channels (Fin t) = Inr (interpolate (colors ! i) (colors ! Suc i) (Fin ((t - a) / (b - a))))"
  using i
proof (cases rule: colors_cases)
  case 1
  have ab: "a = 0" "b = 1/5"
    using a b 1 by (simp_all add: colors_def)
  show ?thesis
    using channels_segment(1)[of t] t unfolding ab 1 by (simp add: colors_def)
next
  case 2
  have ab: "a = 1/5" "b = 2/5"
    using a b 2 by (simp_all add: colors_def)
  show ?thesis
    using channels_segment(2)[of t] t unfolding ab 2 by (simp add: colors_def)
next
  case 3
  have ab: "a = 2/5" "b = 3/5"
    using a b 3 by (simp_all add: colors_def)
  show ?thesis
    using channels_segment(3)[of t] t unfolding ab 3 by (simp add: colors_def)
next
  case 4
  have ab: "a = 3/5" "b = 4/5"
    using a b 4 by (simp_all add: colors_def)
  show ?thesis
    using channels_segment(4)[of t] t unfolding ab 4 by (simp add: colors_def)
next
  case 5
  have ab: "a = 4/5" "b = 1"
    using a b 5 by (simp_all add: colors_def)
  show ?thesis
    using channels_segment(5)[of t] t unfolding ab 5 by (simp add: colors_def)
qed

section \<open>Smoothstep and the rounded blend\<close>

lemma ease_mono:
  assumes "0 \<le> x" "x \<le> y" "y \<le> 1"
  shows "ease x \<le> ease y"
proof -
  have eq: "ease y - ease x = (y - x) * (x * (3 - 2 * x - y) + y * (3 - 2 * y - x))"
    by (simp add: ease_def algebra_simps)
  have "0 \<le> x * (3 - 2 * x - y)"
    using assms by (intro mult_nonneg_nonneg) auto
  moreover have "0 \<le> y * (3 - 2 * y - x)"
    using assms by (intro mult_nonneg_nonneg) auto
  ultimately have "0 \<le> (y - x) * (x * (3 - 2 * x - y) + y * (3 - 2 * y - x))"
    using assms by (intro mult_nonneg_nonneg) auto
  with eq show ?thesis by linarith
qed

lemma ease_bounds:
  assumes "0 \<le> x" "x \<le> 1"
  shows "0 \<le> ease x" "ease x \<le> 1"
  using ease_mono [of 0 x] ease_mono [of x 1] assms by (simp_all add: ease_0 ease_1)

lemma blend_mono_up:
  fixes l u :: real
  assumes "l \<le> u" "e1 \<le> e2"
  shows "round (l + (u - l) * e1) \<le> round (l + (u - l) * e2)"
  using assms by (intro round_mono add_left_mono mult_left_mono) auto

lemma blend_mono_down:
  fixes l u :: real
  assumes "u \<le> l" "e1 \<le> e2"
  shows "round (l + (u - l) * e2) \<le> round (l + (u - l) * e1)"
  using assms by (intro round_mono add_left_mono mult_left_mono_neg) auto

lemma blend_range:
  fixes l u :: real
  assumes "0 \<le> l" "l \<le> 255" "0 \<le> u" "u \<le> 255" "0 \<le> e" "e \<le> 1"
  shows "0 \<le> round (l + (u - l) * e)" "round (l + (u - l) * e) \<le> 255"
proof -
  have eq: "l + (u - l) * e = (1 - e) * l + e * u"
    by (simp add: algebra_simps)
  have lo: "0 \<le> (1 - e) * l + e * u"
    using assms by (intro add_nonneg_nonneg mult_nonneg_nonneg) auto
  have "(1 - e) * l \<le> (1 - e) * 255" "e * u \<le> e * 255"
    using assms by (intro mult_left_mono; simp)+
  then have hi: "(1 - e) * l + e * u \<le> 255"
    by (simp add: algebra_simps)
  from lo eq have "round (0::real) \<le> round (l + (u - l) * e)"
    by (intro round_mono) simp
  then show "0 \<le> round (l + (u - l) * e)" by simp
  from hi eq have "round (l + (u - l) * e) \<le> round (255::real)"
    by (intro round_mono) simp
  then show "round (l + (u - l) * e) \<le> 255" by simp
qed

text \<open>The palette: finite, increasing positions and channels that are integers in 0..255.\<close>

lemma palette_positions:
  assumes "i < length colors - 1"
  shows "\<exists>a b. pos (colors ! i) = Fin a \<and> pos (colors ! Suc i) = Fin b \<and> a < b \<and> 0 \<le> a \<and> b \<le> 1"
  using assms
proof (cases rule: colors_cases)
  case 1 show ?thesis unfolding 1
    by (intro exI [of _ 0] exI [of _ "1/5"]) (simp add: colors_def)
next
  case 2 show ?thesis unfolding 2
    by (intro exI [of _ "1/5"] exI [of _ "2/5"]) (simp add: colors_def)
next
  case 3 show ?thesis unfolding 3
    by (intro exI [of _ "2/5"] exI [of _ "3/5"]) (simp add: colors_def)
next
  case 4 show ?thesis unfolding 4
    by (intro exI [of _ "3/5"] exI [of _ "4/5"]) (simp add: colors_def)
next
  case 5 show ?thesis unfolding 5
    by (intro exI [of _ "4/5"] exI [of _ 1]) (simp add: colors_def)
qed

lemma palette_channels:
  assumes "i < length colors"
  obtains r g b :: int where
    "parseHex (color (colors ! i)) = \<lparr>rgb_r = Fin (of_int r), rgb_g = Fin (of_int g), rgb_b = Fin (of_int b)\<rparr>"
    "0 \<le> r" "r \<le> 255" "0 \<le> g" "g \<le> 255" "0 \<le> b" "b \<le> 255"
proof -
  from assms have "i = 0 \<or> i = 1 \<or> i = 2 \<or> i = 3 \<or> i = 4 \<or> i = 5"
    by (simp add: colors_def) arith
  then consider "i = 0" | "i = 1" | "i = 2" | "i = 3" | "i = 4" | "i = 5" by blast
  then show ?thesis
  proof cases
    case 1 show ?thesis using that [of 79 195 247] 1 by (simp add: colors_def parseHex_palette)
  next
    case 2 show ?thesis using that [of 66 165 245] 2 by (simp add: colors_def parseHex_palette)
  next
    case 3 show ?thesis using that [of 126 87 194] 3 by (simp add: colors_def parseHex_palette)
  next
    case 4 show ?thesis using that [of 172 38 196] 4 by (simp add: colors_def parseHex_palette)
  next
    case 5 show ?thesis using that [of 236 64 122] 5 by (simp add: colors_def parseHex_palette)
  next
    case 6 show ?thesis using that [of 239 83 80] 6 by (simp add: colors_def parseHex_palette)
  qed
qed

lemma channels_value:
  assumes "i < length colors - 1"
      and "pos (colors ! i) = Fin a" and "pos (colors ! Suc i) = Fin b"
      and "a \<le> t" and "t \<le> b"
      and "parseHex (color (colors ! i)) = \<lparr>rgb_r = Fin lr, rgb_g = Fin lg, rgb_b = Fin lb\<rparr>"
      and "parseHex (color (colors ! Suc i)) = \<lparr>rgb_r = Fin ur, rgb_g = Fin ug, rgb_b = Fin ub\<rparr>"
  shows "color_channels (Fin t) =
           Inr \<lparr>rgb_r = Fin (of_int (round (lr + (ur - lr) * ease ((t - a) / (b - a))))),
                rgb_g = Fin (of_int (round (lg + (ug - lg) * ease ((t - a) / (b - a))))),
                rgb_b = Fin (of_int (round (lb + (ub - lb) * ease ((t - a) / (b - a)))))\<rparr>"
  using assms by (simp add: channels_in_segment interpolate_Fin)

lemma local_t_range:
  fixes a b t :: real
  assumes "a < b" "a \<le> t" "t \<le> b"
  shows "0 \<le> (t - a) / (b - a)" "(t - a) / (b - a) \<le> 1"
  using assms by simp_all

lemma local_t_mono:
  fixes a b :: real
  assumes "a < b" "t1 \<le> t2"
  shows "(t1 - a) / (b - a) \<le> (t2 - a) / (b - a)"
  using assms by (intro divide_right_mono) simp_all

lemma segment_exists:
  assumes "0 \<le> t" "t \<le> 1"
  shows "\<exists>i a b. i < length colors - 1 \<and> pos (colors ! i) = Fin a \<and> pos (colors ! Suc i) = Fin b
                \<and> a \<le> t \<and> t \<le> b \<and> a < b"
proof -
  consider "t \<le> 1/5" | "1/5 \<le> t" "t \<le> 2/5" | "2/5 \<le> t" "t \<le> 3/5"
    | "3/5 \<le> t" "t \<le> 4/5" | "4/5 \<le> t"
    by linarith
  then show ?thesis
  proof cases
    case 1 with assms show ?thesis
      by (intro exI [of _ 0] exI [of _ "0::real"] exI [of _ "1/5::real"]) (simp add: colors_def)
  next
    case 2 then show ?thesis
      by (intro exI [of _ 1] exI [of _ "1/5::real"] exI [of _ "2/5::real"]) (simp add: colors_def)
  next
    case 3 then show ?thesis
      by (intro exI [of _ 2] exI [of _ "2/5::real"] exI [of _ "3/5::real"]) (simp add: colors_def)
  next
    case 4 then show ?thesis
      by (intro exI [of _ 3] exI [of _ "3/5::real"] exI [of _ "4/5::real"]) (simp add: colors_def)
  next
    case 5 with assms show ?thesis
      by (intro exI [of _ 4] exI [of _ "4/5::real"] exI [of _ "1::real"]) (simp add: colors_def)
  qed
qed

lemma parseHex_take: "parseHex hex = parseHex (take 7 hex)"
  by (simp add: parseHex_def slice_def)

lemma number_string_int:
  assumes "\<bar>n\<bar> < 2 ^ 53"
  shows "number_string (Fin (of_int n)) = int_string n"
proof (cases "n < 0")
  case True
  with assms have "of_int (- n) < (2::real) ^ 53"
    by (simp only: of_int_less_numeral_power_cancel_iff)
  then have "positive_string (of_int (- n)) = nat_digits (nat (- n))"
    by (simp only: positive_string_def floor_of_int) simp
  with True show ?thesis by (simp add: int_string_def)
next
  case False
  with assms have "of_int n < (2::real) ^ 53"
    by (simp only: of_int_less_numeral_power_cancel_iff)
  then have "positive_string (of_int n) = nat_digits (nat n)"
    by (simp only: positive_string_def floor_of_int) simp
  with False show ?thesis by (simp add: int_string_def)
qed

lemma rgb_string_ints:
  assumes "0 \<le> r" "r \<le> 255" "0 \<le> g" "g \<le> 255" "0 \<le> b" "b \<le> 255"
  shows "rgb_string \<lparr>rgb_r = Fin (of_int r), rgb_g = Fin (of_int g), rgb_b = Fin (of_int b)\<rparr>
     = ''rgb('' @ int_string r @ '', '' @ int_string g @ '', '' @ int_string b @ '')''"
proof -
  have small: "\<bar>r\<bar> < 2 ^ 53" "\<bar>g\<bar> < 2 ^ 53" "\<bar>b\<bar> < 2 ^ 53"
    using assms by simp_all
  show ?thesis
    by (simp only: rgb_string_def rgb.simps number_string_int [OF small(1)]
          number_string_int [OF small(2)] number_string_int [OF small(3)])
qed

lemma channels_in_range:
  assumes "0 \<le> t" "t \<le> 1"
  shows "\<exists>r g b :: int. 0 \<le> r \<and> r \<le> 255 \<and> 0 \<le> g \<and> g \<le> 255 \<and> 0 \<le> b \<and> b \<le> 255
           \<and> color_channels (Fin t) = Inr \<lparr>rgb_r = Fin (of_int r), rgb_g = Fin (of_int g), rgb_b = Fin (of_int b)\<rparr>"
proof -
  from segment_exists [OF assms] obtain i a b where
    i: "i < length colors - 1" and a: "pos (colors ! i) = Fin a" and b: "pos (colors ! Suc i) = Fin b"
    and t: "a \<le> t" "t \<le> b" and ab: "a < b"
    by blast
  from i have i': "i < length colors" "Suc i < length colors" by simp_all
  obtain lr lg lb :: int where
    l: "parseHex (color (colors ! i)) = \<lparr>rgb_r = Fin (of_int lr), rgb_g = Fin (of_int lg), rgb_b = Fin (of_int lb)\<rparr>"
    and lrange: "0 \<le> lr" "lr \<le> 255" "0 \<le> lg" "lg \<le> 255" "0 \<le> lb" "lb \<le> 255"
    using palette_channels [OF i'(1)] by metis
  obtain ur ug ub :: int where
    u: "parseHex (color (colors ! Suc i)) = \<lparr>rgb_r = Fin (of_int ur), rgb_g = Fin (of_int ug), rgb_b = Fin (of_int ub)\<rparr>"
    and urange: "0 \<le> ur" "ur \<le> 255" "0 \<le> ug" "ug \<le> 255" "0 \<le> ub" "ub \<le> 255"
    using palette_channels [OF i'(2)] by metis
  define e where "e = ease ((t - a) / (b - a))"
  have e: "0 \<le> e" "e \<le> 1"
    unfolding e_def using ease_bounds local_t_range [OF ab t] by simp_all
  have v: "color_channels (Fin t) =
             Inr \<lparr>rgb_r = Fin (of_int (round (of_int lr + (of_int ur - of_int lr) * e))),
                  rgb_g = Fin (of_int (round (of_int lg + (of_int ug - of_int lg) * e))),
                  rgb_b = Fin (of_int (round (of_int lb + (of_int ub - of_int lb) * e)))\<rparr>"
    unfolding e_def by (rule channels_value [OF i a b t l u])
  have "0 \<le> round (of_int lr + (of_int ur - of_int lr) * e)
        \<and> round (of_int lr + (of_int ur - of_int lr) * e) \<le> 255"
    using blend_range [of "of_int lr" "of_int ur" e] lrange urange e by simp
  moreover have "0 \<le> round (of_int lg + (of_int ug - of_int lg) * e)
        \<and> round (of_int lg + (of_int ug - of_int lg) * e) \<le> 255"
    using blend_range [of "of_int lg" "of_int ug" e] lrange urange e by simp
  moreover have "0 \<le> round (of_int lb + (of_int ub - of_int lb) * e)
        \<and> round (of_int lb + (of_int ub - of_int lb) * e) \<le> 255"
    using blend_range [of "of_int lb" "of_int ub" e] lrange urange e by simp
  ultimately show ?thesis using v by blast
qed

section \<open>Control points\<close>

text \<open>
  C2: at each of the six control-point positions 0.0, 0.2, 0.4, 0.6, 0.8 and 1.0 the colour
  scale returns exactly the colour of that control point; at 0.0 this is the first colour
  \<open>rgb(79, 195, 247)\<close>, at 0.6 it is \<open>rgb(172, 38, 196)\<close> and at 1.0 the last colour
  \<open>rgb(239, 83, 80)\<close>.
\<close>

theorem control_points_exact:
  "map pos colors = [Fin 0.0, Fin 0.2, Fin 0.4, Fin 0.6, Fin 0.8, Fin 1.0]
   \<and> map (\<lambda>s. createColorScale (pos s)) colors
       = map (\<lambda>s. Inr (rgb_string (parseHex (color s)))) colors
   \<and> createColorScale (Fin 0.0) = Inr ''rgb(79, 195, 247)''
   \<and> createColorScale (Fin 0.6) = Inr ''rgb(172, 38, 196)''
   \<and> createColorScale (Fin 1.0) = Inr ''rgb(239, 83, 80)''"
proof -
  have a: "map pos colors = [Fin 0.0, Fin 0.2, Fin 0.4, Fin 0.6, Fin 0.8, Fin 1.0]"
    by (simp add: colors_def)
  have b: "map (\<lambda>s. createColorScale (pos s)) colors
             = map (\<lambda>s. Inr (rgb_string (parseHex (color s)))) colors"
    by (simp add: colors_def createColorScale_def channels_at_stops)
  have c: "createColorScale (Fin 0.0) = Inr ''rgb(79, 195, 247)''"
    by (simp add: createColorScale_def channels_at_stops parseHex_palette rgb_strings)
  have d: "createColorScale (Fin 0.6) = Inr ''rgb(172, 38, 196)''"
    by (simp add: createColorScale_def channels_at_stops parseHex_palette rgb_strings)
  have e: "createColorScale (Fin 1.0) = Inr ''rgb(239, 83, 80)''"
    by (simp add: createColorScale_def channels_at_stops parseHex_palette rgb_strings)
  from a b c d e show ?thesis by blast
qed

section \<open>The interpolation formula\<close>



section \<open>Continuity at the control points\<close>

text \<open>
  C5: at every interior control-point position \<open>p\<close> (0.2, 0.4, 0.6 and 0.8) the formula of the
  segment that ends at \<open>p\<close> and the formula of the segment that starts at \<open>p\<close>, both
  evaluated at \<open>t = p\<close>, give the same three channels, which are those of the control
  point: the eased parameter is 1 in the first and 0 in the second.
\<close>

theorem boundary_continuity:
  assumes "p \<in> {Fin 0.2, Fin 0.4, Fin 0.6, Fin 0.8}"
  shows "\<exists>i. 0 < i \<and> Suc i < length colors \<and> pos (colors ! i) = p
           \<and> interpolate (colors ! (i - 1)) (colors ! i) (local_t p (colors ! (i - 1)) (colors ! i))
               = parseHex (color (colors ! i))
           \<and> interpolate (colors ! i) (colors ! Suc i) (local_t p (colors ! i) (colors ! Suc i))
               = parseHex (color (colors ! i))
           \<and> smoothstep (local_t p (colors ! (i - 1)) (colors ! i)) = Fin 1
           \<and> smoothstep (local_t p (colors ! i) (colors ! Suc i)) = Fin 0"
proof -
  from assms consider "p = Fin (1/5)" | "p = Fin (2/5)" | "p = Fin (3/5)" | "p = Fin (4/5)"
    by auto
  then show ?thesis
  proof cases
    case 1 show ?thesis unfolding 1
      by (intro exI [of _ 1])
         (simp add: colors_def local_t_def js_sub_def interpolate_ends smoothstep_Fin ease_0 ease_1)
  next
    case 2 show ?thesis unfolding 2
      by (intro exI [of _ 2])
         (simp add: colors_def local_t_def js_sub_def interpolate_ends smoothstep_Fin ease_0 ease_1)
  next
    case 3 show ?thesis unfolding 3
      by (intro exI [of _ 3])
         (simp add: colors_def local_t_def js_sub_def interpolate_ends smoothstep_Fin ease_0 ease_1)
  next
    case 4 show ?thesis unfolding 4
      by (intro exI [of _ 4])
         (simp add: colors_def local_t_def js_sub_def interpolate_ends smoothstep_Fin ease_0 ease_1)
  qed
qed

theorem boundary_continuity_witness:
  "\<exists>i. 0 < i \<and> Suc i < length colors \<and> pos (colors ! i) = Fin 0.6
     \<and> interpolate (colors ! (i - 1)) (colors ! i) (local_t (Fin 0.6) (colors ! (i - 1)) (colors ! i))
         = parseHex (color (colors ! i))
     \<and> interpolate (colors ! i) (colors ! Suc i) (local_t (Fin 0.6) (colors ! i) (colors ! Suc i))
         = parseHex (color (colors ! i))"
  using boundary_continuity [of "Fin 0.6"] by auto

section \<open>Monotonicity within a segment\<close>

text \<open>
  C6: for \<open>t1 < t2\<close> in the same palette segment and each of the three channels, the value
  computed at \<open>t1\<close> is at most the value computed at \<open>t2\<close> when the channel does not
  decrease from the lower to the upper control point, and at least that value when it does
  not increase.
\<close>

theorem monotone_in_segment:
  assumes i: "i < length colors - 1"
      and a: "pos (colors ! i) = Fin a" and b: "pos (colors ! Suc i) = Fin b"
      and t: "a \<le> t1" "t1 < t2" "t2 \<le> b"
      and c1: "color_channels (Fin t1) = Inr c1" and c2: "color_channels (Fin t2) = Inr c2"
      and sel: "sel = rgb_r \<or> sel = rgb_g \<or> sel = rgb_b"
      and lower: "lower = parseHex (color (colors ! i))"
      and upper: "upper = parseHex (color (colors ! Suc i))"
  shows "(js_le (sel lower) (sel upper) \<longrightarrow> js_le (sel c1) (sel c2))
       \<and> (js_ge (sel lower) (sel upper) \<longrightarrow> js_ge (sel c1) (sel c2))"
proof -
  from palette_positions [OF i] a b have ab: "a < b" by auto
  from i have i': "i < length colors" "Suc i < length colors" by simp_all
  obtain lr lg lb :: int where
    l: "parseHex (color (colors ! i)) = \<lparr>rgb_r = Fin (of_int lr), rgb_g = Fin (of_int lg), rgb_b = Fin (of_int lb)\<rparr>"
    using palette_channels [OF i'(1)] by metis
  obtain ur ug ub :: int where
    u: "parseHex (color (colors ! Suc i)) = \<lparr>rgb_r = Fin (of_int ur), rgb_g = Fin (of_int ug), rgb_b = Fin (of_int ub)\<rparr>"
    using palette_channels [OF i'(2)] by metis
  define x1 where "x1 = (t1 - a) / (b - a)"
  define x2 where "x2 = (t2 - a) / (b - a)"
  have x: "0 \<le> x1" "x1 \<le> x2" "x2 \<le> 1"
    using ab t local_t_range [of a b t1] local_t_range [of a b t2] local_t_mono [of a b t1 t2]
    by (simp_all add: x1_def x2_def)
  then have e: "ease x1 \<le> ease x2" by (rule ease_mono)
  have v1: "c1 = \<lparr>rgb_r = Fin (of_int (round (of_int lr + (of_int ur - of_int lr) * ease x1))),
                   rgb_g = Fin (of_int (round (of_int lg + (of_int ug - of_int lg) * ease x1))),
                   rgb_b = Fin (of_int (round (of_int lb + (of_int ub - of_int lb) * ease x1)))\<rparr>"
    using channels_value [OF i a b _ _ l u, of t1] t c1 by (simp add: x1_def)
  have v2: "c2 = \<lparr>rgb_r = Fin (of_int (round (of_int lr + (of_int ur - of_int lr) * ease x2))),
                   rgb_g = Fin (of_int (round (of_int lg + (of_int ug - of_int lg) * ease x2))),
                   rgb_b = Fin (of_int (round (of_int lb + (of_int ub - of_int lb) * ease x2)))\<rparr>"
    using channels_value [OF i a b _ _ l u, of t2] t c2 by (simp add: x2_def)
  from sel consider "sel = rgb_r" | "sel = rgb_g" | "sel = rgb_b" by blast
  then show ?thesis
  proof cases
    case 1
    show ?thesis
      using blend_mono_up [of "of_int lr" "of_int ur", OF _ e]
            blend_mono_down [of "of_int ur" "of_int lr", OF _ e]
      by (simp add: 1 lower upper l u v1 v2 js_ge_def)
  next
    case 2
    show ?thesis
      using blend_mono_up [of "of_int lg" "of_int ug", OF _ e]
            blend_mono_down [of "of_int ug" "of_int lg", OF _ e]
      by (simp add: 2 lower upper l u v1 v2 js_ge_def)
  next
    case 3
    show ?thesis
      using blend_mono_up [of "of_int lb" "of_int ub", OF _ e]
            blend_mono_down [of "of_int ub" "of_int lb", OF _ e]
      by (simp add: 3 lower upper l u v1 v2 js_ge_def)
  qed
qed

theorem monotone_in_segment_witness:
  "js_ge (rgb_g (parseHex (color (colors ! 2)))) (rgb_g (parseHex (color (colors ! 3))))
   \<and> color_channels (Fin (11/25)) = Inr \<lparr>rgb_r = Fin 131, rgb_g = Fin 82, rgb_b = Fin 194\<rparr>
   \<and> color_channels (Fin (1/2)) = Inr \<lparr>rgb_r = Fin 149, rgb_g = Fin 63, rgb_b = Fin 195\<rparr>
   \<and> js_ge (Fin 82) (Fin 63)"
proof -
  have c1: "color_channels (Fin (11/25)) = Inr \<lparr>rgb_r = Fin 131, rgb_g = Fin 82, rgb_b = Fin 194\<rparr>"
    using channels_segment(3) [of "11/25"]
    by (simp add: interpolate_def parseHex_palette smoothstep_Fin channel_Fin ease_def round_def)
  have c2: "color_channels (Fin (1/2)) = Inr \<lparr>rgb_r = Fin 149, rgb_g = Fin 63, rgb_b = Fin 195\<rparr>"
    using channels_segment(3) [of "1/2"]
    by (simp add: interpolate_def parseHex_palette smoothstep_Fin channel_Fin ease_def round_def)
  show ?thesis
    using monotone_in_segment [of 2 "2/5" "3/5" "11/25" "1/2", OF _ _ _ _ _ _ c1 c2, of rgb_g]
    by (simp add: colors_def parseHex_palette c1 c2 js_ge_def)
qed

section \<open>The format of the result\<close>

text \<open>
  C10: for every \<open>t\<close> in \<open>[0, 1]\<close> the result is the string \<open>rgb(r, g, b)\<close> for three integers
  between 0 and 255. \<open>parseHex\<close> reads the characters 1 to 6 of the hex colour only, so that
  the trailing \<open>ff\<close> of \<open>#ac26c4ff\<close> is ignored and no alpha value reaches the result.
\<close>

theorem rgb_format:
  "(0 \<le> t \<and> t \<le> 1 \<longrightarrow>
      (\<exists>r g b :: int. 0 \<le> r \<and> r \<le> 255 \<and> 0 \<le> g \<and> g \<le> 255 \<and> 0 \<le> b \<and> b \<le> 255
         \<and> createColorScale (Fin t)
             = Inr (''rgb('' @ int_string r @ '', '' @ int_string g @ '', '' @ int_string b @ '')'')))
   \<and> parseHex hex = parseHex (take 7 hex)
   \<and> parseHex ''#ac26c4ff'' = parseHex ''#ac26c4''
   \<and> parseHex ''#ac26c4ff'' = \<lparr>rgb_r = Fin 172, rgb_g = Fin 38, rgb_b = Fin 196\<rparr>"
proof -
  have "\<exists>r g b :: int. 0 \<le> r \<and> r \<le> 255 \<and> 0 \<le> g \<and> g \<le> 255 \<and> 0 \<le> b \<and> b \<le> 255
         \<and> createColorScale (Fin t)
             = Inr (''rgb('' @ int_string r @ '', '' @ int_string g @ '', '' @ int_string b @ '')'')"
    if "0 \<le> t" "t \<le> 1"
  proof -
    from channels_in_range [OF that] obtain r g b :: int where
      "0 \<le> r" "r \<le> 255" "0 \<le> g" "g \<le> 255" "0 \<le> b" "b \<le> 255"
      "color_channels (Fin t) = Inr \<lparr>rgb_r = Fin (of_int r), rgb_g = Fin (of_int g), rgb_b = Fin (of_int b)\<rparr>"
      by blast
    then show ?thesis
      unfolding createColorScale_def by (simp add: rgb_string_ints) blast
  qed
  moreover have "parseHex hex = parseHex (take 7 hex)" by (rule parseHex_take)
  moreover have "parseHex ''#ac26c4ff'' = parseHex ''#ac26c4''"
    using parseHex_take [of "''#ac26c4ff''"] by simp
  ultimately show ?thesis by (simp add: parseHex_palette)
qed

theorem rgb_format_witness:
  "\<exists>r g b :: int. 0 \<le> r \<and> r \<le> 255 \<and> 0 \<le> g \<and> g \<le> 255 \<and> 0 \<le> b \<and> b \<le> 255
     \<and> createColorScale (Fin (1/2))
         = Inr (''rgb('' @ int_string r @ '', '' @ int_string g @ '', '' @ int_string b @ '')'')"
  using rgb_format [of "1/2"] by simp

section \<open>Arguments outside the unit interval\<close>

text \<open>
  C4, as amended: for every \<open>t\<close> outside \<open>[0, 1]\<close> (below 0, above 1, or \<open>NaN\<close>) no segment
  matches, nothing is clamped, and \<open>createColorScale\<close> throws a \<open>TypeError\<close>.
\<close>

theorem out_of_range_raises:
  assumes "\<not> (js_ge t (Fin 0) \<and> js_le t (Fin 1))"
  shows "createColorScale t = Inl TypeError"
proof (cases t)
  case (Fin x)
  with assms have "x < 0 \<or> 1 < x" by (auto simp add: js_ge_def)
  then show ?thesis
    unfolding Fin createColorScale_def color_channels_def find_segment_colors by auto
qed (simp_all add: createColorScale_def color_channels_def colors_def js_ge_def)

theorem out_of_range_raises_witness:
  "\<not> (js_ge (Fin 1.5) (Fin 0) \<and> js_le (Fin 1.5) (Fin 1))
   \<and> createColorScale (Fin 1.5) = Inl TypeError"
  using out_of_range_raises [of "Fin 1.5"] by (simp add: js_ge_def)

text \<open>
  The claim as stated fails: at 1.5 the call throws where clamping would give the colour
  returned at 1.0, and at -0.5 it throws where clamping would give the colour returned
  at 0.0.
\<close>

theorem no_clamping_counterexample:
  "createColorScale (Fin 1.5) = Inl TypeError
   \<and> createColorScale (Fin 1.0) = Inr ''rgb(239, 83, 80)''
   \<and> createColorScale (Fin (- 0.5)) = Inl TypeError
   \<and> createColorScale (Fin 0.0) = Inr ''rgb(79, 195, 247)''"
proof -
  have "createColorScale (Fin 1.5) = Inl TypeError"
    and "createColorScale (Fin (- 0.5)) = Inl TypeError"
    by (simp_all add: createColorScale_def color_channels_def find_segment_colors)
  moreover have "createColorScale (Fin 1.0) = Inr ''rgb(239, 83, 80)''"
    and "createColorScale (Fin 0.0) = Inr ''rgb(79, 195, 247)''"
    by (simp_all add: createColorScale_def channels_at_stops parseHex_palette rgb_strings)
  ultimately show ?thesis by blast
qed

section \<open>The legend\<close>

lemma d3_range_legend: "d3_range 0 101 2 = map (\<lambda>k. 2 * int k) [0..<51]"
proof -
  have "\<lceil>(101::real) / 2\<rceil> = 51" by (simp add: ceiling_eq_iff)
  then show ?thesis by (simp add: d3_range_def mult.commute)
qed

text \<open>
  C9: the gradient has 51 stops; stop \<open>k\<close> (for \<open>k = 0, ..., 50\<close>) sits at offset \<open>2k%\<close> and
  its colour is \<open>createColorScale(k / 50)\<close>, a sampling step of 0.02; none of the 51 calls
  throws.
\<close>

theorem legend_samples:
  "legend_stops =
     map (\<lambda>k. \<lparr>offset = int_string (2 * int k) @ ''%'',
                 stop_color = createColorScale (Fin (real k / 50))\<rparr>) [0..<51]
   \<and> length legend_stops = 51
   \<and> list_all (\<lambda>s. \<exists>c. stop_color s = Inr c) legend_stops"
proof -
  have a: "legend_stops =
     map (\<lambda>k. \<lparr>offset = int_string (2 * int k) @ ''%'',
                 stop_color = createColorScale (Fin (real k / 50))\<rparr>) [0..<51]"
    unfolding legend_stops_def d3_range_legend by (simp add: comp_def)
  have "\<exists>c. createColorScale (Fin (real k / 50)) = Inr c" if "k < 51" for k
  proof -
    from that have "0 \<le> real k / 50" "real k / 50 \<le> 1" by simp_all
    from channels_in_range [OF this] show ?thesis
      by (auto simp add: createColorScale_def)
  qed
  then have b: "list_all (\<lambda>s. \<exists>c. stop_color s = Inr c) legend_stops"
    unfolding a by (simp add: list_all_iff)
  have c: "length legend_stops = 51"
    unfolding a by simp
  from a b c show ?thesis by blast
qed

section \<open>Coordinates\<close>

lemmas parse_simps = parseFloat_def trim_start_def trim_def is_space_def str_decimal_def
  str_unsigned_decimal_def is_digit_def digit_val_def digits_value_def exponent_part_def
  with_sign_def signed_inf_def radix_literal_def to_number_def

lemma coordinate_string_eq:
  "coordinate_string raw = take 3 (strip_dots raw) @ ''.'' @ take 3 (drop 3 (strip_dots raw))"
  by (simp add: coordinate_string_def substring_def Let_def drop_take)

lemma strip_dots_take: "strip_dots (take n (strip_dots s)) = take n (strip_dots s)"
  unfolding strip_dots_def
  by (rule filter_True) (auto dest: in_set_takeD)

lemma no_dot: "c \<in> set (strip_dots s) \<Longrightarrow> c \<noteq> CHR ''.''"
  by (simp add: strip_dots_def)

lemma coordinate_examples:
  "normalize_coordinate ''-336695'' = Fin (- 33.669)"
  "normalize_coordinate ''-706453'' = Fin (- 70.645)"
  "normalize_coordinate ''-33a695'' = Fin (- 33)"
  by (simp_all add: normalize_coordinate_def coordinate_string_def strip_dots_def substring_def
        parse_simps)

lemma to_number_examples:
  "to_number ''-60'' = Fin (- 60)" "to_number ''100'' = Fin 100" "to_number ''40'' = Fin 40"
  "to_number ''-60%'' = NaN"
  by (simp_all add: parse_simps)

lemma not_infinity:
  assumes "CHR ''.'' \<notin> set (c # cs)"
  shows "take 8 (c # take 2 cs @ ''.'' @ rest) \<noteq> ''Infinity''"
proof (cases cs)
  case Nil then show ?thesis by simp
next
  case (Cons x xs)
  show ?thesis
  proof (cases xs)
    case Nil with Cons show ?thesis by simp
  next
    case (Cons y ys) with \<open>cs = x # xs\<close> show ?thesis by simp
  qed
qed

lemma str_decimal_no_start:
  assumes "\<not> is_digit 10 c" "c \<noteq> CHR ''+''" "c \<noteq> CHR ''-''" "c \<noteq> CHR ''.''"
      and "take 8 (c # rest) \<noteq> ''Infinity''"
  shows "str_decimal (c # rest) = None"
  using assms by (simp add: str_decimal_def str_unsigned_decimal_def)

lemma dot_not_digit: "\<not> is_digit 10 CHR ''.''"
  by (simp add: is_digit_def digit_val_def)

lemma minus_not_space: "\<not> is_space CHR ''-''"
  by (simp add: is_space_def)

lemma digit_not_I: "is_digit 10 c \<Longrightarrow> c \<noteq> CHR ''I''"
  by (auto simp add: is_digit_def digit_val_def)

lemma signed_digits:
  assumes s: "strip_dots raw = CHR ''-'' # d1 # d2 # d3 # d4 # d5 # rest"
      and d: "is_digit 10 d1" "is_digit 10 d2" "is_digit 10 d3" "is_digit 10 d4" "is_digit 10 d5"
  shows "normalize_coordinate raw
           = Fin (- (real (digits_value 10 [d1, d2]) + real (digits_value 10 [d3, d4, d5]) / 1000))"
proof -
  have cs: "coordinate_string raw = CHR ''-'' # d1 # d2 # CHR ''.'' # [d3, d4, d5]"
    by (simp add: coordinate_string_eq s)
  have u: "str_unsigned_decimal (d1 # d2 # CHR ''.'' # [d3, d4, d5])
             = Some (real (digits_value 10 [d1, d2]) + real (digits_value 10 [d3, d4, d5]) / 1000, [])"
    using d by (simp add: str_unsigned_decimal_def dot_not_digit exponent_part_def)
  have "str_decimal (CHR ''-'' # d1 # d2 # CHR ''.'' # [d3, d4, d5])
          = Some (Fin (- (real (digits_value 10 [d1, d2]) + real (digits_value 10 [d3, d4, d5]) / 1000)), [])"
    using digit_not_I [OF d(1)] by (simp add: str_decimal_def u with_sign_def)
  then show ?thesis
    by (simp add: normalize_coordinate_def cs parseFloat_def trim_start_def minus_not_space)
qed

text \<open>
  C3, as amended: the full stops are removed; the first three characters (a leading minus
  sign being one of them), a full stop and only the next three characters are parsed as a
  float, whatever follows the sixth character being dropped. A minus sign followed by the
  digits \<open>d1 d2 d3 d4 d5\<close> (and anything after them) therefore gives \<open>-d1d2.d3d4d5\<close>, and
  \<open>-336695\<close> gives \<open>-33.669\<close>.
\<close>

theorem normalize_coordinate_rule:
  "normalize_coordinate raw
     = parseFloat (take 3 (strip_dots raw) @ ''.'' @ take 3 (drop 3 (strip_dots raw)))
   \<and> CHR ''.'' \<notin> set (strip_dots raw)
   \<and> normalize_coordinate raw = normalize_coordinate (take 6 (strip_dots raw))
   \<and> (strip_dots raw = CHR ''-'' # d1 # d2 # d3 # d4 # d5 # rest
        \<and> is_digit 10 d1 \<and> is_digit 10 d2 \<and> is_digit 10 d3 \<and> is_digit 10 d4 \<and> is_digit 10 d5
      \<longrightarrow> normalize_coordinate raw
            = Fin (- (real (digits_value 10 [d1, d2]) + real (digits_value 10 [d3, d4, d5]) / 1000)))
   \<and> normalize_coordinate ''-336695'' = Fin (- 33.669)"
proof -
  have a: "normalize_coordinate raw
             = parseFloat (take 3 (strip_dots raw) @ ''.'' @ take 3 (drop 3 (strip_dots raw)))"
    by (simp add: normalize_coordinate_def coordinate_string_eq)
  have b: "CHR ''.'' \<notin> set (strip_dots raw)"
    using no_dot [of "CHR ''.''" raw] by blast
  have "coordinate_string (take 6 (strip_dots raw)) = coordinate_string raw"
    by (simp add: coordinate_string_eq strip_dots_take drop_take)
  then have c: "normalize_coordinate raw = normalize_coordinate (take 6 (strip_dots raw))"
    by (simp add: normalize_coordinate_def)
  have d: "normalize_coordinate ''-336695'' = Fin (- 33.669)"
    by (rule coordinate_examples)
  from a b c d signed_digits [of raw d1 d2 d3 d4 d5 rest] show ?thesis by blast
qed

theorem normalize_coordinate_rule_witness:
  "strip_dots ''-336695'' = ''-336695''
   \<and> digits_value 10 ''33'' = 33 \<and> digits_value 10 ''669'' = 669
   \<and> normalize_coordinate ''-336695''
       = Fin (- (real (digits_value 10 ''33'') + real (digits_value 10 ''669'') / 1000))"
proof -
  have s: "strip_dots ''-336695''
             = CHR ''-'' # CHR ''3'' # CHR ''3'' # CHR ''6'' # CHR ''6'' # CHR ''9'' # ''5''"
    by (simp add: strip_dots_def)
  have d: "is_digit 10 CHR ''3''" "is_digit 10 CHR ''6''" "is_digit 10 CHR ''9''"
    by (simp_all add: is_digit_def digit_val_def)
  have v: "digits_value 10 ''33'' = 33" "digits_value 10 ''669'' = 669"
    by (simp_all add: digits_value_def digit_val_def)
  from normalize_coordinate_rule
         [of "''-336695''" "CHR ''3''" "CHR ''3''" "CHR ''6''" "CHR ''6''" "CHR ''9''" "''5''"]
       s d
  have "normalize_coordinate ''-336695''
          = Fin (- (real (digits_value 10 ''33'') + real (digits_value 10 ''669'') / 1000))"
    by blast
  with s v show ?thesis by blast
qed

text \<open>
  The claim as stated fails: keeping the whole string after the inserted full stop gives
  \<open>-33.6695\<close> for \<open>-336695\<close>, where the program returns \<open>-33.669\<close>.
\<close>

theorem insert_only_counterexample:
  "normalize_coordinate ''-336695'' = Fin (- 33.669)
   \<and> spec_normalize ''-336695'' = Fin (- 33.6695)
   \<and> normalize_coordinate ''-336695'' \<noteq> spec_normalize ''-336695''"
proof -
  have "spec_normalize ''-336695'' = Fin (- 33.6695)"
    by (simp add: spec_normalize_def strip_dots_def parse_simps)
  then show ?thesis by (simp add: coordinate_examples)
qed

lemma str_unsigned_decimal_None:
  "str_unsigned_decimal body = None \<longleftrightarrow>
     (case body of
        [] \<Rightarrow> True
      | c # cs \<Rightarrow>
          \<not> (is_digit 10 c
             \<or> (c = CHR ''.'' \<and> (case cs of [] \<Rightarrow> False | d # ds \<Rightarrow> is_digit 10 d))))"
proof (cases body)
  case Nil
  then show ?thesis by (simp add: str_unsigned_decimal_def)
next
  case (Cons c cs)
  have dot: "\<not> is_digit 10 CHR ''.''"
    by (simp add: is_digit_def digit_val_def)
  show ?thesis
  proof (cases "is_digit 10 c")
    case True
    then show ?thesis
      by (simp add: Cons str_unsigned_decimal_def Let_def split: option.splits list.splits)
  next
    case False
    show ?thesis
    proof (cases cs)
      case Nil
      with False Cons show ?thesis
        by (simp add: str_unsigned_decimal_def Let_def split: option.splits)
    next
      case (Cons d ds)
      with False \<open>body = c # cs\<close> show ?thesis
        by (simp add: str_unsigned_decimal_def Let_def split: option.splits)
    qed
  qed
qed

lemma split_sign_length: "length (snd (split_sign s)) \<le> length s"
  by (cases s) simp_all

lemma trim_start_length: "length (trim_start s) \<le> length s"
  by (simp add: trim_start_def length_dropWhile_le)

lemma coordinate_string_length: "length (coordinate_string raw) \<le> 7"
  by (simp add: coordinate_string_def substring_def Let_def)

lemma parseFloat_NaN:
  assumes "length s < 8"
  shows "parseFloat s = NaN \<longleftrightarrow> \<not> numeric_start s"
proof -
  obtain negative body where sb: "split_sign (trim_start s) = (negative, body)"
    by (cases "split_sign (trim_start s)")
  have "length body \<le> length s"
    using split_sign_length [of "trim_start s"] trim_start_length [of s] sb by simp
  with assms have "length (take 8 body) < 8" by simp
  then have ni: "take 8 body \<noteq> ''Infinity''" by auto
  have "parseFloat s = NaN \<longleftrightarrow> str_unsigned_decimal body = None"
    using sb ni by (simp add: parseFloat_def str_decimal_def split: option.splits)
  also have "\<dots> \<longleftrightarrow> \<not> numeric_start s"
    using sb by (simp add: str_unsigned_decimal_None numeric_start_def split: list.splits)
  finally show ?thesis .
qed

lemma nan_first_character:
  assumes "strip_dots raw = c # cs"
      and "\<not> is_digit 10 c" and "c \<noteq> CHR ''+''" and "c \<noteq> CHR ''-''" and "\<not> is_space c"
  shows "normalize_coordinate raw = NaN"
proof -
  have dot: "CHR ''.'' \<notin> set (c # cs)"
    using no_dot [of _ raw] assms(1) by metis
  then have c: "c \<noteq> CHR ''.''" by auto
  have cs: "coordinate_string raw = c # take 2 cs @ ''.'' @ take 3 (drop 2 cs)"
    by (simp add: coordinate_string_eq assms(1) take_Cons' drop_Cons')
  have ni: "take 8 (c # take 2 cs @ ''.'' @ take 3 (drop 2 cs)) \<noteq> ''Infinity''"
    by (rule not_infinity [OF dot])
  have "str_decimal (c # take 2 cs @ ''.'' @ take 3 (drop 2 cs)) = None"
    by (rule str_decimal_no_start [OF assms(2) assms(3) assms(4) c ni])
  then show ?thesis
    unfolding normalize_coordinate_def cs parseFloat_def trim_start_def
    using assms(5) by simp
qed

text \<open>
  C7, as amended: no input raises an error, and the result is \<open>NaN\<close> exactly when the string
  that is parsed (the first three characters, a full stop, the next three characters) does
  not start with a number. This is so whenever what is left of the input after the full
  stops are removed starts with a character that is neither a digit, a sign nor white space.
  A character that is not numeric further on does not give \<open>NaN\<close>: \<open>parseFloat\<close> reads the
  numeric prefix before it.
\<close>

theorem normalize_nan:
  "(normalize_coordinate raw = NaN \<longleftrightarrow> \<not> numeric_start (coordinate_string raw))
   \<and> (strip_dots raw = c # cs \<and> \<not> is_digit 10 c \<and> c \<noteq> CHR ''+'' \<and> c \<noteq> CHR ''-''
        \<and> \<not> is_space c
      \<longrightarrow> normalize_coordinate raw = NaN)"
proof -
  have "length (coordinate_string raw) < 8"
    using coordinate_string_length [of raw] by simp
  then have "normalize_coordinate raw = NaN \<longleftrightarrow> \<not> numeric_start (coordinate_string raw)"
    unfolding normalize_coordinate_def by (rule parseFloat_NaN)
  then show ?thesis
    using nan_first_character [of raw c cs] by blast
qed

theorem normalize_nan_witness:
  "strip_dots ''abc.def'' = CHR ''a'' # ''bcdef'' \<and> \<not> is_digit 10 CHR ''a'' \<and> \<not> is_space CHR ''a''
   \<and> normalize_coordinate ''abc.def'' = NaN
   \<and> \<not> numeric_start (coordinate_string ''abc.def'')"
proof -
  have h: "strip_dots ''abc.def'' = CHR ''a'' # ''bcdef''" "\<not> is_digit 10 CHR ''a''"
    "CHR ''a'' \<noteq> CHR ''+''" "CHR ''a'' \<noteq> CHR ''-''" "\<not> is_space CHR ''a''"
    by (simp_all add: strip_dots_def is_digit_def digit_val_def is_space_def)
  from normalize_nan [of "''abc.def''" "CHR ''a''" "''bcdef''"] h show ?thesis by blast
qed

text \<open>
  The claim as stated fails: \<open>-33a695\<close> still has the letter \<open>a\<close> once the full stops are
  removed, and the result is the number -33.
\<close>

theorem numeric_prefix_counterexample:
  "strip_dots ''-33a695'' = ''-33a695'' \<and> \<not> is_digit 10 CHR ''a''
   \<and> normalize_coordinate ''-33a695'' = Fin (- 33)
   \<and> normalize_coordinate ''-33a695'' \<noteq> NaN"
  by (simp add: coordinate_examples strip_dots_def is_digit_def digit_val_def)

section \<open>Airport records\<close>

lemma Math_abs_nonneg: "x \<noteq> NaN \<Longrightarrow> js_ge (Math_abs x) (Fin 0)"
  by (cases x) (simp_all add: js_ge_def)

text \<open>
  C8, as amended: \<open>reduction_pct\<close> is \<open>Math.abs\<close> of the raw field converted to a number; it
  is at least 0 whenever that conversion is a number, and \<open>NaN\<close> otherwise. The row with
  \<open>lat = -336695\<close>, \<open>lon = -706453\<close>, \<open>ops_2019 = 100\<close>, \<open>ops_2020 = 40\<close> and
  \<open>var_pct_20_vs_19 = -60\<close> gives \<open>reduction_pct = 60\<close> and the coordinates
  \<open>(-33.669, -70.645)\<close>, inside the bounding box of Chile.
\<close>

theorem reduction_pct_abs:
  "reduction_pct (load_row d) = Math_abs (to_number (row_var_pct_20_vs_19 d))
   \<and> (to_number (row_var_pct_20_vs_19 d) \<noteq> NaN \<longrightarrow> js_ge (reduction_pct (load_row d)) (Fin 0))
   \<and> (to_number (row_var_pct_20_vs_19 d) = NaN \<longrightarrow> reduction_pct (load_row d) = NaN)
   \<and> load_row \<lparr>row_codigo = c, row_lat = ''-336695'', row_lon = ''-706453'',
                row_ops_2019 = ''100'', row_ops_2020 = ''40'', row_var_pct_20_vs_19 = ''-60''\<rparr>
       = \<lparr>codigo = c, lat = Fin (- 33.669), lon = Fin (- 70.645),
          ops_2019 = Fin 100, ops_2020 = Fin 40, reduction_pct = Fin 60.0\<rparr>
   \<and> in_chile_box (Fin (- 33.669)) (Fin (- 70.645))"
proof -
  have a: "reduction_pct (load_row d) = Math_abs (to_number (row_var_pct_20_vs_19 d))"
    by (simp add: load_row_def)
  have b: "load_row \<lparr>row_codigo = c, row_lat = ''-336695'', row_lon = ''-706453'',
                row_ops_2019 = ''100'', row_ops_2020 = ''40'', row_var_pct_20_vs_19 = ''-60''\<rparr>
       = \<lparr>codigo = c, lat = Fin (- 33.669), lon = Fin (- 70.645),
          ops_2019 = Fin 100, ops_2020 = Fin 40, reduction_pct = Fin 60.0\<rparr>"
    by (simp add: load_row_def coordinate_examples to_number_examples)
  have c: "in_chile_box (Fin (- 33.669)) (Fin (- 70.645))"
    by (simp add: in_chile_box_def js_ge_def)
  from a b c show ?thesis by (simp add: Math_abs_nonneg)
qed

theorem reduction_pct_abs_witness:
  "to_number ''-60'' \<noteq> NaN
   \<and> js_ge (reduction_pct (load_row \<lparr>row_codigo = ''SCEL'', row_lat = ''-336695'',
        row_lon = ''-706453'', row_ops_2019 = ''100'', row_ops_2020 = ''40'',
        row_var_pct_20_vs_19 = ''-60''\<rparr>)) (Fin 0)"
  using reduction_pct_abs [of "\<lparr>row_codigo = ''SCEL'', row_lat = ''-336695'',
        row_lon = ''-706453'', row_ops_2019 = ''100'', row_ops_2020 = ''40'',
        row_var_pct_20_vs_19 = ''-60''\<rparr>" "''SCEL''"]
  by (simp add: to_number_examples js_ge_def)

text \<open>
  The claim as stated fails: a row whose \<open>var_pct_20_vs_19\<close> field is \<open>-60%\<close> gives a record
  whose \<open>reduction_pct\<close> is \<open>NaN\<close>, which is not at least 0.
\<close>

theorem not_numeric_counterexample:
  "reduction_pct (load_row \<lparr>row_codigo = ''SCEL'', row_lat = ''-336695'',
        row_lon = ''-706453'', row_ops_2019 = ''100'', row_ops_2020 = ''40'',
        row_var_pct_20_vs_19 = ''-60%''\<rparr>) = NaN
   \<and> \<not> js_ge (reduction_pct (load_row \<lparr>row_codigo = ''SCEL'', row_lat = ''-336695'',
        row_lon = ''-706453'', row_ops_2019 = ''100'', row_ops_2020 = ''40'',
        row_var_pct_20_vs_19 = ''-60%''\<rparr>)) (Fin 0)"
  by (simp add: load_row_def to_number_examples js_ge_def)

end
